theory Spec2Isabelle
  imports Main "HOL-Library.Word"
begin

section \<open>Bytes, hex text and Python errors\<close>

text \<open>
  The module is Python 2: a \<open>str\<close> is a byte string. Binary data (what goes over the
  serial line) is modelled as a list of 8-bit words, hex text (the command templates and
  the reply payloads) as \<open>string\<close>.
\<close>

type_synonym byte = "8 word"

datatype error = KeyError | TypeError | ValueError | AttributeError

definition hexdigit :: "nat \<Rightarrow> char" where
  \<comment> \<open>the lowercase digit \<open>binascii.hexlify\<close> prints for a nibble\<close>
  "hexdigit n = (if n < 10 then char_of (48 + n) else char_of (87 + n))"

definition hexlify_byte :: "byte \<Rightarrow> string" where
  "hexlify_byte b = [hexdigit (unat b div 16), hexdigit (unat b mod 16)]"

definition hexlify :: "byte list \<Rightarrow> string" where
  "hexlify bs = concat (map hexlify_byte bs)"

definition hexval :: "char \<Rightarrow> nat option" where
  \<comment> \<open>the value of a hex digit, either case, as \<open>binascii.unhexlify\<close> reads it\<close>
  "hexval c =
     (let n = (of_char c :: nat) in
      if 48 \<le> n \<and> n \<le> 57 then Some (n - 48)
      else if 97 \<le> n \<and> n \<le> 102 then Some (n - 87)
      else if 65 \<le> n \<and> n \<le> 70 then Some (n - 55)
      else None)"

fun unhexlify :: "string \<Rightarrow> error + byte list" where
  \<comment> \<open>\<open>binascii.unhexlify\<close>: TypeError on an odd length or a non-hex digit\<close>
  "unhexlify [] = Inr []"
| "unhexlify [c] = Inl TypeError"
| "unhexlify (c # d # cs) =
     (case (hexval c, hexval d) of
        (Some h, Some l) \<Rightarrow>
          (case unhexlify cs of
             Inl e \<Rightarrow> Inl e
           | Inr bs \<Rightarrow> Inr (of_nat (16 * h + l) # bs))
      | _ \<Rightarrow> Inl TypeError)"

definition char_upper :: "char \<Rightarrow> char" where
  "char_upper c =
     (let n = (of_char c :: nat) in if 97 \<le> n \<and> n \<le> 122 then char_of (n - 32) else c)"

definition str_upper :: "string \<Rightarrow> string" where
  "str_upper s = map char_upper s"

section \<open>Protocol constants\<close>

definition BYTE_STX :: byte where "BYTE_STX = 0x02"
definition BYTE_WRITE :: byte where "BYTE_WRITE = 0x57"
definition BYTE_READ :: byte where "BYTE_READ = 0x52"
definition BYTE_DLE_ETX :: "byte list" where "BYTE_DLE_ETX = [0x10, 0x03]"

section \<open>Writing a frame\<close>

text \<open>
  The loop of \<open>_write\<close> walks the hex text two characters at a time,
  \<open>range(0, len(data) - 1, 2)\<close>, so a trailing odd character is dropped, and doubles
  every pair that reads \<open>10\<close>.
\<close>

fun data_safe :: "string \<Rightarrow> string" where
  "data_safe (c # d # cs) =
     (if [c, d] = ''10'' then ''1010'' else [c, d]) @ data_safe cs"
| "data_safe [c] = []"
| "data_safe [] = []"

definition write_frame :: "string \<Rightarrow> string \<Rightarrow> error + byte list" where
  \<comment> \<open>\<open>_write\<close> (\<open>write\<close> is an Isar keyword): the bytes handed to \<open>self._device.write\<close>, or the error raised\<close>
  "write_frame cmd_type data =
     (case unhexlify (data_safe data) of
        Inl e \<Rightarrow> Inl e
      | Inr binary_variable \<Rightarrow>
          Inr (if cmd_type = ''W''
               then [BYTE_STX, BYTE_WRITE] @ binary_variable @ BYTE_DLE_ETX
               else [BYTE_STX, BYTE_READ] @ binary_variable @ BYTE_DLE_ETX))"

section \<open>Reading a frame\<close>

text \<open>
  The inner loop of \<open>_primare_reader\<close> (the modified \<open>readline\<close>): bytes are read one
  at a time and appended to \<open>bytes_read\<close> until its last two bytes are DLE ETX, or until
  a read returns nothing (the timeout; here the end of the stream).
\<close>

fun readline :: "byte list \<Rightarrow> byte list \<Rightarrow> byte list" where
  "readline bytes_read [] = bytes_read"
| "readline bytes_read (c # cs) =
     (let bytes_read' = bytes_read @ [c] in
      if drop (length bytes_read' - 2) bytes_read' = BYTE_DLE_ETX then bytes_read'
      else readline bytes_read' cs)"

text \<open>
  The un-escaping loop: \<open>zip(byte_string[0::2], byte_string[1::2])\<close> pairs the bytes at
  even offsets with their successors; a pair that prints as \<open>1010\<close> becomes \<open>10\<close>, and
  the last byte of an odd-length body is appended by hand.
\<close>

fun unescape_pairs :: "byte list \<Rightarrow> string" where
  "unescape_pairs (a # b # bs) =
     (if hexlify [a, b] = ''1010'' then ''10'' else hexlify [a, b]) @ unescape_pairs bs"
| "unescape_pairs [a] = hexlify [a]"
| "unescape_pairs [] = []"

definition POS_REPLY_VAR :: "byte list \<Rightarrow> byte list" where
  \<comment> \<open>\<open>slice(1, 2)\<close>\<close>
  "POS_REPLY_VAR bs = take 1 (drop 1 bs)"

definition POS_REPLY_DATA :: "byte list \<Rightarrow> byte list" where
  \<comment> \<open>\<open>slice(2, -2)\<close>\<close>
  "POS_REPLY_DATA bs = drop 2 (take (length bs - 2) bs)"

definition decode :: "byte list \<Rightarrow> string \<times> string" where
  \<comment> \<open>the body of \<open>if bytes_read:\<close>: the table key and the payload stored under it\<close>
  "decode bytes_read =
     (str_upper (hexlify (POS_REPLY_VAR bytes_read)), unescape_pairs (POS_REPLY_DATA bytes_read))"

definition primare_reader ::
    "byte list \<Rightarrow> (string \<rightharpoonup> string) \<Rightarrow> (string \<rightharpoonup> string) \<times> bool" where
  \<comment> \<open>one turn of the reader's outer loop on the bytes the device sends: the reply table
      afterwards, and whether the read event was pulsed\<close>
  "primare_reader rx tbl =
     (let bytes_read = readline [] rx in
      if bytes_read \<noteq> [] then
        (case decode bytes_read of (variable_char, data) \<Rightarrow> (tbl(variable_char \<mapsto> data), True))
      else (tbl, False))"

section \<open>The command table and the reply table\<close>

definition PRIMARE_CMD :: "string \<rightharpoonup> string \<times> string \<times> string \<times> bool" where
  \<comment> \<open>mnemonic to (INDEX_CMD, INDEX_VARIABLE, INDEX_REPLY, INDEX_WAIT)\<close>
  "PRIMARE_CMD = map_of
     [(''power_toggle'', (''W'', ''0100'', ''01'', True)),
      (''power_set'', (''W'', ''81YY'', ''01YY'', False)),
      (''input_set'', (''W'', ''82YY'', ''02YY'', True)),
      (''input_next'', (''W'', ''0201'', ''02'', True)),
      (''input_prev'', (''W'', ''02FF'', ''02'', True)),
      (''volume_set'', (''W'', ''83YY'', ''03YY'', True)),
      (''volume_up'', (''W'', ''0301'', ''03'', True)),
      (''volume_down'', (''W'', ''03FF'', ''03'', True)),
      (''balance_adjust'', (''W'', ''04YY'', ''04'', True)),
      (''balance_set'', (''W'', ''84YY'', ''04YY'', True)),
      (''mute_toggle'', (''W'', ''0900'', ''09'', True)),
      (''mute_set'', (''W'', ''89YY'', ''09YY'', True)),
      (''dim_cycle'', (''W'', ''0A00'', ''0A'', True)),
      (''dim_set'', (''W'', ''0AYY'', ''0AYY'', True)),
      (''verbose_toggle'', (''W'', ''0D00'', ''0D'', True)),
      (''verbose_set'', (''W'', ''8DYY'', ''0DYY'', True)),
      (''menu_toggle'', (''W'', ''0E01'', ''0E'', True)),
      (''menu_set'', (''W'', ''8EYY'', ''0EYY'', True)),
      (''remote_cmd'', (''W'', ''0FYY'', ''YY'', True)),
      (''ir_input_toggle'', (''W'', ''1200'', ''12'', True)),
      (''ir_input_set'', (''W'', ''92YY'', ''12YY'', True)),
      (''recall_factory_settings'', (''R'', ''1300'', [], False)),
      (''inputname_current_get'', (''R'', ''1400'', ''14YY'', True)),
      (''inputname_specific_get'', (''R'', ''94YY'', ''94YY'', True)),
      (''manufacturer_get'', (''R'', ''1500'', ''15'', True)),
      (''modelname_get'', (''R'', ''1600'', ''16'', True)),
      (''swversion_get'', (''R'', ''1700'', ''17'', True))]"

definition PRIMARE_REPLY_keys :: "string list" where
  "PRIMARE_REPLY_keys =
     [''01'', ''02'', ''03'', ''04'', ''09'', ''0A'', ''0D'', ''0E'',
      ''12'', ''13'', ''14'', ''15'', ''16'', ''17'']"

definition PRIMARE_REPLY_init :: "string \<rightharpoonup> string" where
  \<comment> \<open>the module-level dict as it is when the module is loaded: every key maps to the
      empty string\<close>
  "PRIMARE_REPLY_init = map_of (map (\<lambda>k. (k, [])) PRIMARE_REPLY_keys)"

fun replace_YY :: "string \<Rightarrow> string \<Rightarrow> string" where
  \<comment> \<open>\<open>data.replace('YY', option)\<close>: every occurrence, left to right, not overlapping\<close>
  "replace_YY new (c # d # cs) =
     (if c = CHR ''Y'' \<and> d = CHR ''Y'' then new @ replace_YY new cs
      else c # replace_YY new (d # cs))"
| "replace_YY new [c] = [c]"
| "replace_YY new [] = []"

section \<open>The state of a PrimareTalker and the dispatcher\<close>

record PrimareTalker =
  volume :: "int option"
  mute_state :: bool
  PRIMARE_REPLY :: "string \<rightharpoonup> string"
  device_written :: "byte list list"

text \<open>
  A call returns a value, raises, or never comes back: \<open>self._read_event.wait()\<close> has no
  timeout, so a dispatcher whose reader decodes no frame stays blocked. Every outcome
  carries the state it leaves behind.
\<close>

datatype 'a outcome = Returned 'a PrimareTalker | Raised error PrimareTalker | Blocked PrimareTalker

fun state_of :: "'a outcome \<Rightarrow> PrimareTalker" where
  "state_of (Returned v st) = st"
| "state_of (Raised e st) = st"
| "state_of (Blocked st) = st"

fun value_of :: "'a outcome \<Rightarrow> 'a option" where
  "value_of (Returned v st) = Some v"
| "value_of (Raised e st) = None"
| "value_of (Blocked st) = None"

fun raised_of :: "'a outcome \<Rightarrow> error option" where
  "raised_of (Returned v st) = None"
| "raised_of (Raised e st) = Some e"
| "raised_of (Blocked st) = None"

text \<open>
  \<open>_send_command\<close>, run to completion under the write lock. The argument \<open>rx\<close> is what
  the device sends while the caller waits on the read event: the reader thread takes one
  line of it, stores the decoded payload and pulses the event; with nothing to read the
  event is never pulsed.
\<close>

definition send_command :: "PrimareTalker \<Rightarrow> string \<Rightarrow> string option \<Rightarrow> byte list \<Rightarrow> string outcome" where
  "send_command st variable opt rx =
     (case PRIMARE_CMD variable of
        None \<Rightarrow> Raised KeyError st
      | Some (command, data0, reply, wait) \<Rightarrow>
          (let data = (case opt of None \<Rightarrow> data0 | Some v \<Rightarrow> replace_YY v data0) in
           case write_frame command data of
             Inl e \<Rightarrow> Raised e st
           | Inr binary_data \<Rightarrow>
               (let st1 = st\<lparr>device_written := device_written st @ [binary_data]\<rparr> in
                if wait then
                  (case primare_reader rx (PRIMARE_REPLY st1) of
                     (tbl, pulsed) \<Rightarrow>
                       if \<not> pulsed then Blocked st1
                       else
                         (case tbl (take 2 reply) of
                            None \<Rightarrow> Raised KeyError (st1\<lparr>PRIMARE_REPLY := tbl\<rparr>)
                          | Some reply_data \<Rightarrow>
                              Returned reply_data (st1\<lparr>PRIMARE_REPLY := tbl(reply \<mapsto> [])\<rparr>)))
                else Returned reply st1)))"

section \<open>Number formatting and parsing\<close>

definition round_half_away :: "int \<Rightarrow> int \<Rightarrow> int" where
  \<comment> \<open>\<open>int(round(n / d))\<close> for an integer \<open>n\<close> and \<open>d > 0\<close>: Python 2 rounds halves away
      from zero. The source divides in floating point; for the integers met here the
      quotient is either exactly a half or at least 1/200 away from one, so the integer
      formula gives the same result.\<close>
  "round_half_away n d =
     (if 0 \<le> n then (2 * n + d) div (2 * d) else - ((2 * (- n) + d) div (2 * d)))"

definition VOLUME_LEVELS :: int where "VOLUME_LEVELS = 79"

definition target_primare_volume :: "int \<Rightarrow> int" where
  \<comment> \<open>\<open>int(round(volume * self.VOLUME_LEVELS / 100.0))\<close>\<close>
  "target_primare_volume v = round_half_away (v * VOLUME_LEVELS) 100"

definition upper_hexdigit :: "nat \<Rightarrow> char" where
  "upper_hexdigit n = (if n < 10 then char_of (48 + n) else char_of (55 + n))"

fun hex_upper :: "nat \<Rightarrow> string" where
  "hex_upper n =
     (if n < 16 then [upper_hexdigit n]
      else hex_upper (n div 16) @ [upper_hexdigit (n mod 16)])"

fun decimal :: "nat \<Rightarrow> string" where
  "decimal n =
     (if n < 10 then [char_of (48 + n)]
      else decimal (n div 10) @ [char_of (48 + n mod 10)])"

declare hex_upper.simps [simp del]
declare decimal.simps [simp del]

definition zero_pad2 :: "string \<Rightarrow> string" where
  "zero_pad2 s = replicate (2 - length s) CHR ''0'' @ s"

definition fmt_02X :: "int \<Rightarrow> string" where
  \<comment> \<open>\<open>'%02X' % n\<close>: the sign counts towards the width\<close>
  "fmt_02X n = (if 0 \<le> n then zero_pad2 (hex_upper (nat n)) else CHR ''-'' # hex_upper (nat (- n)))"

definition fmt_02d :: "int \<Rightarrow> string" where
  \<comment> \<open>\<open>'%02d' % n\<close>\<close>
  "fmt_02d n = (if 0 \<le> n then zero_pad2 (decimal (nat n)) else CHR ''-'' # decimal (nat (- n)))"

fun hex_value :: "nat \<Rightarrow> string \<Rightarrow> nat option" where
  "hex_value acc [] = Some acc"
| "hex_value acc (c # cs) =
     (case hexval c of None \<Rightarrow> None | Some v \<Rightarrow> hex_value (16 * acc + v) cs)"

definition int_16 :: "string \<Rightarrow> error + int" where
  \<comment> \<open>\<open>int(reply, 16)\<close> on the strings that reach it, which are payloads printed by
      \<open>hexlify\<close>: a non-empty run of hex digits is its value, anything else is taken as
      ValueError (signs, a 0x prefix and blanks, which Python also reads, never occur)\<close>
  "int_16 s =
     (if s = [] then Inl ValueError
      else case hex_value 0 s of None \<Rightarrow> Inl ValueError | Some n \<Rightarrow> Inr (int n))"

section \<open>The device facade\<close>

definition power_toggle :: "PrimareTalker \<Rightarrow> byte list \<Rightarrow> bool outcome" where
  "power_toggle st rx =
     (case send_command st ''power_toggle'' None rx of
        Returned reply st1 \<Rightarrow> Returned (reply \<noteq> [] \<and> reply = ''01'') st1
      | Raised e st1 \<Rightarrow> Raised e st1
      | Blocked st1 \<Rightarrow> Blocked st1)"

definition volume_get :: "PrimareTalker \<Rightarrow> int option" where
  "volume_get st = volume st"

definition volume_set :: "PrimareTalker \<Rightarrow> int \<Rightarrow> byte list \<Rightarrow> bool outcome" where
  "volume_set st vol rx =
     (let target = target_primare_volume vol in
      case send_command st ''volume_set'' (Some (fmt_02X target)) rx of
        Returned reply st1 \<Rightarrow>
          if reply \<noteq> [] then
            (case int_16 reply of
               Inl e \<Rightarrow> Raised e st1
             | Inr n \<Rightarrow>
                 if n = target \<or> n = target - 1
                 then Returned True (st1\<lparr>volume := Some vol\<rparr>)
                 else Returned False st1)
          else Returned False st1
      | Raised e st1 \<Rightarrow> Raised e st1
      | Blocked st1 \<Rightarrow> Blocked st1)"

text \<open>
  \<open>volume_up\<close> and \<open>volume_down\<close> end in \<open>return self._volume.get()\<close>: neither an int nor
  None has an attribute \<open>get\<close>. Before that, \<open>self._volume += 1\<close> on None is a TypeError.
\<close>

definition volume_up :: "PrimareTalker \<Rightarrow> byte list \<Rightarrow> int outcome" where
  "volume_up st rx =
     (case send_command st ''volume_up'' None rx of
        Returned reply st1 \<Rightarrow>
          if reply \<noteq> [] then
            (case volume st1 of
               None \<Rightarrow> Raised TypeError st1
             | Some v \<Rightarrow> Raised AttributeError (st1\<lparr>volume := Some (v + 1)\<rparr>))
          else Raised AttributeError st1
      | Raised e st1 \<Rightarrow> Raised e st1
      | Blocked st1 \<Rightarrow> Blocked st1)"

definition volume_down :: "PrimareTalker \<Rightarrow> byte list \<Rightarrow> int outcome" where
  "volume_down st rx =
     (case send_command st ''volume_down'' None rx of
        Returned reply st1 \<Rightarrow>
          if reply \<noteq> [] then
            (case volume st1 of
               None \<Rightarrow> Raised TypeError st1
             | Some v \<Rightarrow> Raised AttributeError (st1\<lparr>volume := Some (v - 1)\<rparr>))
          else Raised AttributeError st1
      | Raised e st1 \<Rightarrow> Raised e st1
      | Blocked st1 \<Rightarrow> Blocked st1)"

definition mute_toggle :: "PrimareTalker \<Rightarrow> byte list \<Rightarrow> bool outcome" where
  "mute_toggle st rx =
     (case send_command st ''mute_toggle'' None rx of
        Returned reply st1 \<Rightarrow>
          if reply = ''01'' then Returned True (st1\<lparr>mute_state := True\<rparr>)
          else Returned False (st1\<lparr>mute_state := False\<rparr>)
      | Raised e st1 \<Rightarrow> Raised e st1
      | Blocked st1 \<Rightarrow> Blocked st1)"

definition mute_get :: "PrimareTalker \<Rightarrow> bool" where
  "mute_get st = mute_state st"

definition mute_set :: "PrimareTalker \<Rightarrow> bool \<Rightarrow> byte list \<Rightarrow> bool outcome" where
  "mute_set st mute rx =
     (let mute_value = (if mute then ''01'' else ''00'') in
      case send_command st ''mute_set'' (Some mute_value) rx of
        Returned reply st1 \<Rightarrow>
          if reply = ''01'' then Returned True (st1\<lparr>mute_state := True\<rparr>)
          else Returned False (st1\<lparr>mute_state := False\<rparr>)
      | Raised e st1 \<Rightarrow> Raised e st1
      | Blocked st1 \<Rightarrow> Blocked st1)"

definition inputname_specific_get :: "PrimareTalker \<Rightarrow> int \<Rightarrow> byte list \<Rightarrow> byte list option outcome" where
  \<comment> \<open>outside 0..7 the method falls off its end and returns None\<close>
  "inputname_specific_get st input rx =
     (if 0 \<le> input \<and> input \<le> 7 then
        (case send_command st ''inputname_specific_get'' (Some (fmt_02d input)) rx of
           Returned reply st1 \<Rightarrow>
             (case unhexlify reply of
                Inl e \<Rightarrow> Raised e st1
              | Inr name \<Rightarrow> Returned (Some name) st1)
         | Raised e st1 \<Rightarrow> Raised e st1
         | Blocked st1 \<Rightarrow> Blocked st1)
      else Returned None st)"

definition inputname_current_get :: "PrimareTalker \<Rightarrow> byte list \<Rightarrow> byte list outcome" where
  "inputname_current_get st rx =
     (case send_command st ''inputname_current_get'' None rx of
        Returned reply st1 \<Rightarrow>
          (case unhexlify reply of Inl e \<Rightarrow> Raised e st1 | Inr name \<Rightarrow> Returned name st1)
      | Raised e st1 \<Rightarrow> Raised e st1
      | Blocked st1 \<Rightarrow> Blocked st1)"

definition input_set :: "PrimareTalker \<Rightarrow> int \<Rightarrow> byte list \<Rightarrow> byte list \<Rightarrow> byte list outcome" where
  \<comment> \<open>\<open>rx\<close> answers input_set, \<open>rx'\<close> answers the inputname_current_get that follows a
      non-empty reply; the empty string stands for failure\<close>
  "input_set st input_source rx rx' =
     (case send_command st ''input_set'' (Some (fmt_02X input_source)) rx of
        Returned reply st1 \<Rightarrow>
          if reply \<noteq> [] then inputname_current_get st1 rx' else Returned [] st1
      | Raised e st1 \<Rightarrow> Raised e st1
      | Blocked st1 \<Rightarrow> Blocked st1)"

section \<open>Calibration\<close>

definition get_current_volume :: "PrimareTalker \<Rightarrow> byte list \<Rightarrow> byte list \<Rightarrow> int outcome" where
  \<comment> \<open>\<open>_get_current_volume\<close>: \<open>rx1\<close> answers volume_down, \<open>rx2\<close> answers volume_up\<close>
  "get_current_volume st rx1 rx2 =
     (case send_command st ''volume_down'' None rx1 of
        Returned reply st1 \<Rightarrow>
          if reply \<noteq> [] then
            (case send_command st1 ''volume_up'' None rx2 of
               Returned reply' st2 \<Rightarrow>
                 if reply' \<noteq> [] then
                   (case int_16 reply' of Inl e \<Rightarrow> Raised e st2 | Inr n \<Rightarrow> Returned n st2)
                 else Returned 0 st2
             | Raised e st2 \<Rightarrow> Raised e st2
             | Blocked st2 \<Rightarrow> Blocked st2)
          else Returned 0 st1
      | Raised e st1 \<Rightarrow> Raised e st1
      | Blocked st1 \<Rightarrow> Blocked st1)"

definition set_device_to_known_state_volume ::
    "PrimareTalker \<Rightarrow> byte list \<Rightarrow> byte list \<Rightarrow> unit outcome" where
  \<comment> \<open>the last statement of \<open>_set_device_to_known_state\<close>: a configured (truthy) volume
      is applied with \<open>volume_set\<close>, otherwise the calibrated value is stored\<close>
  "set_device_to_known_state_volume st rx1 rx2 =
     (if volume st \<noteq> None \<and> volume st \<noteq> Some 0 then
        (case volume_set st (the (volume st)) rx1 of
           Returned ok st1 \<Rightarrow> Returned () st1
         | Raised e st1 \<Rightarrow> Raised e st1
         | Blocked st1 \<Rightarrow> Blocked st1)
      else
        (case get_current_volume st rx1 rx2 of
           Returned n st1 \<Rightarrow> Returned () (st1\<lparr>volume := Some n\<rparr>)
         | Raised e st1 \<Rightarrow> Raised e st1
         | Blocked st1 \<Rightarrow> Blocked st1))"

definition PrimareTalker_init :: "int option \<Rightarrow> PrimareTalker" where
  \<comment> \<open>the fields \<open>__init__\<close> sets, with the reply table as loaded and nothing written\<close>
  "PrimareTalker_init vol =
     \<lparr>volume = (case vol of None \<Rightarrow> None | Some v \<Rightarrow> if v \<noteq> 0 then Some v else None),
      mute_state = False,
      PRIMARE_REPLY = PRIMARE_REPLY_init,
      device_written = []\<rparr>"

section \<open>Notions used to state the properties\<close>

fun escape :: "byte list \<Rightarrow> byte list" where
  \<comment> \<open>every DLE byte doubled where it stands\<close>
  "escape [] = []"
| "escape (b # bs) = (if b = 0x10 then [0x10, 0x10] else [b]) @ escape bs"

fun count_pair :: "'a \<Rightarrow> 'a \<Rightarrow> 'a list \<Rightarrow> nat" where
  \<comment> \<open>how often \<open>a\<close> is immediately followed by \<open>b\<close>\<close>
  "count_pair a b (x # y # zs) = (if x = a \<and> y = b then 1 else 0) + count_pair a b (y # zs)"
| "count_pair a b [x] = 0"
| "count_pair a b [] = 0"

definition lower_hexdigit :: "char \<Rightarrow> bool" where
  "lower_hexdigit c =
     (let n = (of_char c :: nat) in (48 \<le> n \<and> n \<le> 57) \<or> (97 \<le> n \<and> n \<le> 102))"

definition lower_hex :: "string \<Rightarrow> bool" where
  \<comment> \<open>what the reader stores: an even number of lowercase hex digits\<close>
  "lower_hex s = (even (length s) \<and> list_all lower_hexdigit s)"

definition table_ok :: "(string \<rightharpoonup> string) \<Rightarrow> bool" where
  \<comment> \<open>the keys the table is loaded with are still there, each holding reader output\<close>
  "table_ok tbl =
     list_all (\<lambda>k. case tbl k of None \<Rightarrow> False | Some v \<Rightarrow> lower_hex v) PRIMARE_REPLY_keys"

definition reply_slot :: "PrimareTalker \<Rightarrow> byte list \<Rightarrow> string \<Rightarrow> string option" where
  \<comment> \<open>what the table holds under a key once the reader has taken one line of \<open>rx\<close>\<close>
  "reply_slot st rx key = fst (primare_reader rx (PRIMARE_REPLY st)) key"

section \<open>Hex text\<close>

lemma hexval_hexdigit: "n < 16 \<Longrightarrow> hexval (hexdigit n) = Some n"
  by (auto simp: hexval_def hexdigit_def Let_def)

lemma hexval_less: "hexval c = Some h \<Longrightarrow> h < 16"
  by (auto simp: hexval_def Let_def split: if_splits)

lemma hexval_one: "hexval c = Some (Suc 0) \<Longrightarrow> c = CHR ''1''"
  by (auto simp: hexval_def Let_def split: if_splits intro!: of_char_eqI[where 'a=nat])

lemma hexval_zero: "hexval c = Some 0 \<Longrightarrow> c = CHR ''0''"
  by (auto simp: hexval_def Let_def split: if_splits intro!: of_char_eqI[where 'a=nat])

lemma unhexlify_hexlify: "unhexlify (hexlify bs) = Inr bs"
proof (induction bs)
  case Nil
  show ?case by (simp add: hexlify_def)
next
  case (Cons b bs)
  have lt: "unat b div 16 < 16" "unat b mod 16 < 16"
    using unsigned_less[of b, where 'a=nat] by auto
  have "(of_nat (16 * (unat b div 16) + unat b mod 16) :: byte) = b"
    by simp
  with Cons lt show ?case
    by (simp add: hexlify_def hexlify_byte_def hexval_hexdigit)
qed

lemma pair_is_dle:
  assumes "hexval c = Some h" "hexval d = Some l"
  shows "([c, d] = ''10'') = ((of_nat (16 * h + l) :: byte) = 0x10)"
proof
  assume "[c, d] = ''10''"
  with assms have "h = 1" "l = 0"
    by (simp_all add: hexval_def)
  then show "(of_nat (16 * h + l) :: byte) = 0x10"
    by simp
next
  assume a: "(of_nat (16 * h + l) :: byte) = 0x10"
  have b: "h < 16" "l < 16" using assms hexval_less by auto
  then have lt: "16 * h + l < 256" by simp
  have "(16 * h + l) mod 256 = unat (of_nat (16 * h + l) :: byte)"
    by (simp add: unat_of_nat del: of_nat_add of_nat_mult)
  also have "\<dots> = 16" by (simp only: a) simp
  finally have "(16 * h + l) mod 256 = 16" .
  with lt have "16 * h + l = 16" by simp
  with b have "h = Suc 0 \<and> l = 0" by arith
  with assms show "[c, d] = ''10''"
    using hexval_one hexval_zero by simp
qed

lemma unhexlify_data_safe:
  "unhexlify s = Inr bs \<Longrightarrow> unhexlify (data_safe s) = Inr (escape bs)"
proof (induction s arbitrary: bs rule: unhexlify.induct)
  case 1
  then show ?case by simp
next
  case (2 c)
  then show ?case by simp
next
  case (3 c d cs)
  from "3.prems" obtain h l bs' where
    hv: "hexval c = Some h" "hexval d = Some l" and
    rest: "unhexlify cs = Inr bs'" and
    bs: "bs = of_nat (16 * h + l) # bs'"
    by (auto split: option.splits sum.splits)
  have ih: "unhexlify (data_safe cs) = Inr (escape bs')"
    using "3.IH" hv rest by simp
  show ?case
  proof (cases "[c, d] = ''10''")
    case True
    then have dle: "(of_nat (16 * h + l) :: byte) = 0x10"
      using pair_is_dle[OF hv] by blast
    have "data_safe (c # d # cs) = ''1010'' @ data_safe cs"
      using True by simp
    then have "unhexlify (data_safe (c # d # cs)) = Inr (0x10 # 0x10 # escape bs')"
      using ih by (simp add: hexval_def)
    then show ?thesis
      unfolding bs dle by simp
  next
    case False
    then have dle: "(of_nat (16 * h + l) :: byte) \<noteq> 0x10"
      using pair_is_dle[OF hv] by blast
    have "data_safe (c # d # cs) = c # d # data_safe cs"
      using False by simp
    then have "unhexlify (data_safe (c # d # cs)) = Inr (of_nat (16 * h + l) # escape bs')"
      using ih hv by simp
    then show ?thesis
      unfolding bs using dle by simp
  qed
qed

section \<open>Frames on the wire\<close>

lemma count_pair_escape:
  "count_pair (0x10 :: byte) 0x03 (escape bs @ [0x10, 0x03]) = Suc (count_pair 0x10 0x03 bs)"
proof (induction bs rule: induct_list012)
  case 1
  show ?case by simp
next
  case (2 x)
  show ?case by simp
next
  case (3 x y zs)
  have "count_pair (0x10 :: byte) 0x03 (escape (x # y # zs) @ [0x10, 0x03]) =
        (if x = 0x10 \<and> y = 0x03 then 1 else 0) + count_pair 0x10 0x03 (escape (y # zs) @ [0x10, 0x03])"
    by simp
  with 3 show ?case by simp
qed

lemma count_pair_frame:
  assumes "d \<noteq> 0x10"
  shows "count_pair (0x10 :: byte) 0x03 (0x02 # d # escape bs @ [0x10, 0x03]) = Suc (count_pair 0x10 0x03 bs)"
proof -
  have "count_pair (0x10 :: byte) 0x03 (d # escape bs @ [0x10, 0x03]) =
        count_pair 0x10 0x03 (escape bs @ [0x10, 0x03])"
    using assms by (cases bs) simp_all
  then show ?thesis by (simp add: count_pair_escape)
qed

lemma write_frame_Inr:
  "unhexlify payload = Inr bs \<Longrightarrow>
   write_frame cmd_type payload =
     Inr ([BYTE_STX, if cmd_type = ''W'' then BYTE_WRITE else BYTE_READ] @ escape bs @ BYTE_DLE_ETX)"
  by (simp add: write_frame_def unhexlify_data_safe)

text \<open>
  Claim C2, amended: for a payload given as valid hex text of even length, the frame
  written is STX, the direction byte, the payload with every DLE byte doubled in place,
  and the terminator DLE ETX; the frame holds exactly one more occurrence of the two-byte
  sequence DLE ETX than the payload does. So the terminator is the only occurrence exactly
  when no DLE of the payload is immediately followed by ETX.
\<close>

theorem write_frame_escapes:
  assumes "unhexlify payload = Inr bs"
  shows "write_frame cmd_type payload =
           Inr (BYTE_STX # (if cmd_type = ''W'' then BYTE_WRITE else BYTE_READ) #
                escape bs @ BYTE_DLE_ETX) \<and>
         count_pair 0x10 0x03
           (BYTE_STX # (if cmd_type = ''W'' then BYTE_WRITE else BYTE_READ) #
            escape bs @ BYTE_DLE_ETX) = Suc (count_pair 0x10 0x03 bs)"
proof -
  have "unhexlify (data_safe payload) = Inr (escape bs)"
    using assms by (rule unhexlify_data_safe)
  then have w: "write_frame cmd_type payload =
      Inr (BYTE_STX # (if cmd_type = ''W'' then BYTE_WRITE else BYTE_READ) #
           escape bs @ BYTE_DLE_ETX)"
    by (simp add: write_frame_def)
  have d: "(if cmd_type = ''W'' then BYTE_WRITE else BYTE_READ) \<noteq> 0x10"
    by (simp add: BYTE_WRITE_def BYTE_READ_def)
  have "count_pair 0x10 0x03
          (0x02 # (if cmd_type = ''W'' then BYTE_WRITE else BYTE_READ) #
           escape bs @ [0x10, 0x03]) = Suc (count_pair 0x10 0x03 bs)"
    using d by (rule count_pair_frame)
  with w show ?thesis
    by (simp add: BYTE_STX_def BYTE_DLE_ETX_def)
qed

text \<open>The theorem at the payload \<open>8310\<close>, whose one DLE is doubled before the terminator.\<close>

theorem write_frame_escapes_witness:
  "unhexlify ''8310'' = Inr [0x83, 0x10] \<and>
   write_frame ''W'' ''8310'' = Inr [0x02, 0x57, 0x83, 0x10, 0x10, 0x10, 0x03] \<and>
   count_pair (0x10 :: byte) 0x03 [0x02, 0x57, 0x83, 0x10, 0x10, 0x10, 0x03] = 1"
proof -
  have h: "unhexlify ''8310'' = Inr [0x83, 0x10]"
    by (simp add: hexval_def)
  from write_frame_escapes [OF h, of "''W''"] h show ?thesis
    by (simp add: BYTE_STX_def BYTE_WRITE_def BYTE_DLE_ETX_def)
qed

text \<open>
  As stated, C2 fails for the payload \<open>1003\<close>: the frame holds DLE ETX at offset 3,
  inside the escaped payload, and again at offset 5, the terminator.
\<close>

theorem terminator_not_unique_counterexample:
  "write_frame ''W'' ''1003'' = Inr [0x02, 0x57, 0x10, 0x10, 0x03, 0x10, 0x03] \<and>
   take 2 (drop 3 [0x02, 0x57, 0x10, 0x10, 0x03, 0x10, 0x03 :: byte]) = [0x10, 0x03] \<and>
   count_pair (0x10 :: byte) 0x03 [0x02, 0x57, 0x10, 0x10, 0x03, 0x10, 0x03] = 2"
  by (simp add: write_frame_def hexval_def BYTE_STX_def BYTE_WRITE_def BYTE_DLE_ETX_def)

section \<open>The round trip through the reader\<close>

lemma readline_to_terminator:
  assumes "0x10 \<notin> set xs" and "bytes_read = [] \<or> last bytes_read \<noteq> 0x10"
  shows "readline bytes_read (xs @ [0x10, 0x03]) = bytes_read @ xs @ [0x10, 0x03]"
  using assms
proof (induction xs arbitrary: bytes_read)
  case Nil
  have "drop (length (bytes_read @ [0x10]) - 2) (bytes_read @ [0x10]) \<noteq> [0x10, 0x03 :: byte]"
  proof
    assume a: "drop (length (bytes_read @ [0x10]) - 2) (bytes_read @ [0x10]) = [0x10, 0x03 :: byte]"
    then have "last (drop (length (bytes_read @ [0x10]) - 2) (bytes_read @ [0x10])) = (0x03 :: byte)"
      by simp
    then show False by simp
  qed
  then show ?case
    by (simp add: Let_def BYTE_DLE_ETX_def)
next
  case (Cons x xs)
  have x: "x \<noteq> 0x10" using Cons.prems(1) by auto
  have "drop (length (bytes_read @ [x]) - 2) (bytes_read @ [x]) \<noteq> [0x10, 0x03]"
  proof (cases "bytes_read = []")
    case True
    then show ?thesis by simp
  next
    case False
    then have l: "last bytes_read \<noteq> 0x10" using Cons.prems(2) by simp
    from False obtain ys y where ys: "bytes_read = ys @ [y]"
      by (metis append_butlast_last_id)
    with l have "y \<noteq> 0x10" by simp
    then show ?thesis by (simp add: ys)
  qed
  moreover have "readline (bytes_read @ [x]) (xs @ [0x10, 0x03]) = (bytes_read @ [x]) @ xs @ [0x10, 0x03]"
    using Cons.prems(1) x by (intro Cons.IH) simp_all
  ultimately show ?case
    by (simp add: Let_def BYTE_DLE_ETX_def)
qed

lemma hexlify_pair_dle:
  assumes "hexlify [a, b] = ''1010''"
  shows "a = 0x10"
proof -
  have u: "unhexlify ''1010'' = Inr [0x10, 0x10]"
    by (simp add: hexval_def)
  have "unhexlify (hexlify [a, b]) = Inr [a, b]"
    by (rule unhexlify_hexlify)
  then have "unhexlify ''1010'' = Inr [a, b]"
    by (simp only: assms)
  with u have "(Inr [0x10, 0x10] :: error + byte list) = Inr [a, b]"
    by (simp only:)
  then show ?thesis by simp
qed

lemma hexlify_Cons2: "hexlify (a # b # bs) = hexlify [a, b] @ hexlify bs"
  by (simp add: hexlify_def)

lemma unescape_pairs_without_dle:
  "0x10 \<notin> set bs \<Longrightarrow> unescape_pairs bs = hexlify bs"
proof (induction bs rule: unescape_pairs.induct)
  case (1 a b bs)
  then have "hexlify [a, b] \<noteq> ''1010''"
    using hexlify_pair_dle[of a b] by auto
  then have "unescape_pairs (a # b # bs) = hexlify [a, b] @ unescape_pairs bs"
    by simp
  also have "unescape_pairs bs = hexlify bs"
    using 1 by simp
  also have "hexlify [a, b] @ hexlify bs = hexlify (a # b # bs)"
    by (rule hexlify_Cons2[symmetric])
  finally show ?case .
next
  case (2 a)
  show ?case by simp
next
  case 3
  show ?case by (simp add: hexlify_def)
qed

lemma escape_without_dle: "0x10 \<notin> set bs \<Longrightarrow> escape bs = bs"
  by (induction bs) auto

text \<open>
  A payload with no DLE byte in it does come back: the frame is read to its terminator
  and the body is printed byte for byte, with the direction byte where a reply carries
  its variable code.
\<close>

lemma roundtrip_without_dle:
  assumes "0x10 \<notin> set bs"
  shows "\<exists>frame. write_frame cmd_type (hexlify bs) = Inr frame \<and>
           decode (readline [] frame) =
             (str_upper (hexlify [if cmd_type = ''W'' then BYTE_WRITE else BYTE_READ]), hexlify bs)"
proof -
  let ?d = "if cmd_type = ''W'' then BYTE_WRITE else BYTE_READ"
  have w: "write_frame cmd_type (hexlify bs) = Inr ([BYTE_STX, ?d] @ bs @ [0x10, 0x03])"
    using write_frame_Inr[OF unhexlify_hexlify, of cmd_type bs] escape_without_dle[OF assms]
    by (simp add: BYTE_DLE_ETX_def)
  have "0x10 \<notin> set (BYTE_STX # ?d # bs)"
    using assms by (simp add: BYTE_STX_def BYTE_WRITE_def BYTE_READ_def)
  then have "readline [] ((BYTE_STX # ?d # bs) @ [0x10, 0x03]) = [] @ (BYTE_STX # ?d # bs) @ [0x10, 0x03]"
    by (intro readline_to_terminator) simp_all
  then have r: "readline [] ([BYTE_STX, ?d] @ bs @ [0x10, 0x03]) = BYTE_STX # ?d # bs @ [0x10, 0x03]"
    by simp
  have "decode (BYTE_STX # ?d # bs @ [0x10, 0x03]) = (str_upper (hexlify [?d]), hexlify bs)"
    using unescape_pairs_without_dle[OF assms]
    by (simp add: decode_def POS_REPLY_VAR_def POS_REPLY_DATA_def)
  with w r show ?thesis by simp
qed

text \<open>
  Claim C1 (decoding an encoded frame gives the payload back) fails on the frame that
  \<open>volume_set(20)\<close> writes, payload \<open>8310\<close>: the doubled DLE starts at an odd offset of
  the body, the reader only compares the byte pairs at even offsets, and the decoded
  payload keeps both DLE bytes.
\<close>

theorem roundtrip_breaks_on_odd_offset_dle:
  "device_written (state_of (volume_set (PrimareTalker_init None) 20 [])) =
     [[0x02, 0x57, 0x83, 0x10, 0x10, 0x10, 0x03]] \<and>
   write_frame ''W'' ''8310'' = Inr [0x02, 0x57, 0x83, 0x10, 0x10, 0x10, 0x03] \<and>
   readline [] [0x02, 0x57, 0x83, 0x10, 0x10, 0x10, 0x03] = [0x02, 0x57, 0x83, 0x10, 0x10, 0x10, 0x03] \<and>
   decode [0x02, 0x57, 0x83, 0x10, 0x10, 0x10, 0x03] = (''57'', ''831010'')"
  by code_simp

text \<open>
  A DLE followed by ETX in the payload breaks the round trip in another way: the reader
  takes the escaped DLE and the ETX for the terminator and stops two bytes early.
\<close>

lemma roundtrip_breaks_on_dle_etx:
  "write_frame ''W'' ''1003'' = Inr [0x02, 0x57, 0x10, 0x10, 0x03, 0x10, 0x03] \<and>
   readline [] [0x02, 0x57, 0x10, 0x10, 0x03, 0x10, 0x03] = [0x02, 0x57, 0x10, 0x10, 0x03] \<and>
   decode [0x02, 0x57, 0x10, 0x10, 0x03] = (''57'', ''10'')"
  by code_simp

section \<open>What the reader stores\<close>

lemma lower_hex_Nil: "lower_hex []"
  by (simp add: lower_hex_def)

lemma lower_hex_append: "lower_hex a \<Longrightarrow> lower_hex b \<Longrightarrow> lower_hex (a @ b)"
  by (simp add: lower_hex_def)

lemma hexdigit_lower: "n < 16 \<Longrightarrow> lower_hexdigit (hexdigit n)"
  by (simp add: hexdigit_def lower_hexdigit_def)

lemma lower_hex_hexlify_byte: "lower_hex (hexlify_byte b)"
proof -
  have "unat b div 16 < 16" "unat b mod 16 < 16"
    using unsigned_less[of b, where 'a=nat] by auto
  then show ?thesis
    using hexdigit_lower by (simp add: lower_hex_def hexlify_byte_def)
qed

lemma lower_hex_hexlify: "lower_hex (hexlify bs)"
  by (induction bs) (simp_all add: hexlify_def lower_hex_Nil lower_hex_append lower_hex_hexlify_byte)

lemma hexval_lower: "lower_hexdigit c \<Longrightarrow> \<exists>v. hexval c = Some v"
  by (auto simp: hexval_def lower_hexdigit_def Let_def)

lemma lower_hex_unescape_pairs: "lower_hex (unescape_pairs bs)"
proof (induction bs rule: unescape_pairs.induct)
  case (1 a b bs)
  have "lower_hex ''10''" by (simp add: lower_hex_def lower_hexdigit_def)
  moreover have "lower_hex (hexlify [a, b])" by (rule lower_hex_hexlify)
  ultimately have "lower_hex (if hexlify [a, b] = ''1010'' then ''10'' else hexlify [a, b])"
    by simp
  with 1 show ?case
    by (simp only: unescape_pairs.simps lower_hex_append)
next
  case (2 a)
  show ?case by (simp only: unescape_pairs.simps lower_hex_hexlify)
next
  case 3
  show ?case by (simp add: lower_hex_Nil)
qed

lemma hex_value_lower:
  "list_all lower_hexdigit s \<Longrightarrow> \<exists>n. hex_value acc s = Some n"
proof (induction s arbitrary: acc)
  case Nil
  show ?case by simp
next
  case (Cons c s)
  then obtain v where "hexval c = Some v"
    using hexval_lower[of c] by auto
  with Cons show ?case by simp
qed

lemma int_16_lower_hex:
  assumes "lower_hex s" "s \<noteq> []"
  shows "\<exists>n. int_16 s = Inr n"
proof -
  obtain n where "hex_value 0 s = Some n"
    using assms(1) hex_value_lower[of s 0] by (auto simp: lower_hex_def)
  with assms(2) show ?thesis by (simp add: int_16_def)
qed

lemma unhexlify_lower_hex:
  "lower_hex s \<Longrightarrow> \<exists>bs. unhexlify s = Inr bs"
proof (induction s rule: induct_list012)
  case 1
  show ?case by simp
next
  case (2 c)
  then show ?case by (simp add: lower_hex_def)
next
  case (3 c d cs)
  from "3.prems" have parts: "lower_hexdigit c" "lower_hexdigit d" "lower_hex cs"
    by (simp_all add: lower_hex_def)
  from parts(3) "3.IH"(1) obtain bs where bs: "unhexlify cs = Inr bs" by blast
  from parts(1) obtain h where h: "hexval c = Some h"
    using hexval_lower by blast
  from parts(2) obtain l where l: "hexval d = Some l"
    using hexval_lower by blast
  from bs h l show ?case by simp
qed

section \<open>The reader and the dispatcher\<close>

lemma readline_keeps: "bytes_read \<noteq> [] \<Longrightarrow> readline bytes_read rx \<noteq> []"
  by (induction rx arbitrary: bytes_read) (simp_all add: Let_def)

lemma readline_nonempty: "rx \<noteq> [] \<Longrightarrow> readline [] rx \<noteq> []"
  by (cases rx) (simp_all add: Let_def readline_keeps BYTE_DLE_ETX_def)

lemma primare_reader_pulsed:
  assumes "rx \<noteq> []"
  shows "primare_reader rx tbl =
           (tbl(fst (decode (readline [] rx)) \<mapsto> snd (decode (readline [] rx))), True)"
  using readline_nonempty[OF assms] by (simp add: primare_reader_def Let_def split: prod.split)

lemma primare_reader_silent: "primare_reader [] tbl = (tbl, False)"
  by (simp add: primare_reader_def)

lemma lower_hex_decode: "lower_hex (snd (decode bytes_read))"
  by (simp add: decode_def lower_hex_unescape_pairs)

lemma table_ok_upd: "table_ok tbl \<Longrightarrow> lower_hex v \<Longrightarrow> table_ok (tbl(k \<mapsto> v))"
  by (simp add: table_ok_def list_all_iff)

lemma table_ok_lookup:
  "table_ok tbl \<Longrightarrow> k \<in> set PRIMARE_REPLY_keys \<Longrightarrow> \<exists>v. tbl k = Some v \<and> lower_hex v"
  by (auto simp: table_ok_def list_all_iff split: option.splits)

lemma table_ok_init: "table_ok PRIMARE_REPLY_init"
  by (simp add: table_ok_def PRIMARE_REPLY_init_def PRIMARE_REPLY_keys_def lower_hex_def)

lemma table_ok_reader: "table_ok tbl \<Longrightarrow> table_ok (fst (primare_reader rx tbl))"
proof (cases "rx = []")
  case True
  then show "table_ok tbl \<Longrightarrow> ?thesis" by (simp add: primare_reader_silent)
next
  case False
  then show "table_ok tbl \<Longrightarrow> ?thesis"
    by (simp add: primare_reader_pulsed table_ok_upd lower_hex_decode)
qed

lemma reply_slot_lower_hex:
  assumes "table_ok (PRIMARE_REPLY st)" "k \<in> set PRIMARE_REPLY_keys"
  shows "\<exists>v. reply_slot st rx k = Some v \<and> lower_hex v"
  unfolding reply_slot_def
  using table_ok_lookup[OF table_ok_reader[OF assms(1)] assms(2)] .

lemma reply_slot_decoded:
  assumes "rx \<noteq> []" "fst (decode (readline [] rx)) = key"
  shows "reply_slot st rx key = Some (snd (decode (readline [] rx)))"
  using assms by (simp add: reply_slot_def primare_reader_pulsed)

lemma send_command_wait:
  assumes cmd: "PRIMARE_CMD variable = Some (command, data0, reply, True)"
    and wr: "write_frame command (case opt of None \<Rightarrow> data0 | Some v \<Rightarrow> replace_YY v data0) = Inr frame"
    and rx: "rx \<noteq> []"
    and slot: "reply_slot st rx (take 2 reply) = Some r"
  shows "send_command st variable opt rx =
           Returned r (st\<lparr>device_written := device_written st @ [frame],
                         PRIMARE_REPLY := (fst (primare_reader rx (PRIMARE_REPLY st)))(reply \<mapsto> [])\<rparr>)"
proof -
  obtain tbl where tbl: "primare_reader rx (PRIMARE_REPLY st) = (tbl, True)"
    using primare_reader_pulsed[OF rx] by blast
  with slot have "tbl (take 2 reply) = Some r"
    by (simp add: reply_slot_def)
  with cmd wr tbl show ?thesis
    by (simp add: send_command_def Let_def)
qed

lemma send_command_blocks:
  assumes cmd: "PRIMARE_CMD variable = Some (command, data0, reply, True)"
    and wr: "write_frame command (case opt of None \<Rightarrow> data0 | Some v \<Rightarrow> replace_YY v data0) = Inr frame"
  shows "send_command st variable opt [] =
           Blocked (st\<lparr>device_written := device_written st @ [frame]\<rparr>)"
  using cmd wr by (simp add: send_command_def Let_def primare_reader_silent)

lemma send_command_returns:
  assumes cmd: "PRIMARE_CMD variable = Some (command, data0, reply, True)"
    and wr: "write_frame command (case opt of None \<Rightarrow> data0 | Some v \<Rightarrow> replace_YY v data0) = Inr frame"
    and rx: "rx \<noteq> []"
    and tbl: "table_ok (PRIMARE_REPLY st)"
    and key: "take 2 reply \<in> set PRIMARE_REPLY_keys"
  shows "\<exists>r. reply_slot st rx (take 2 reply) = Some r \<and> lower_hex r \<and>
           send_command st variable opt rx =
             Returned r (st\<lparr>device_written := device_written st @ [frame],
                           PRIMARE_REPLY := (fst (primare_reader rx (PRIMARE_REPLY st)))(reply \<mapsto> [])\<rparr>)"
proof -
  obtain r where r: "reply_slot st rx (take 2 reply) = Some r" "lower_hex r"
    using reply_slot_lower_hex[OF tbl key] by blast
  with send_command_wait[OF cmd wr rx r(1)] show ?thesis by blast
qed

lemma send_command_effect:
  assumes cmd: "PRIMARE_CMD variable = Some (command, data0, reply, wait)"
    and wr: "write_frame command (case opt of None \<Rightarrow> data0 | Some v \<Rightarrow> replace_YY v data0) = Inr frame"
  shows "device_written (state_of (send_command st variable opt rx)) = device_written st @ [frame]"
    and "volume (state_of (send_command st variable opt rx)) = volume st"
    and "mute_state (state_of (send_command st variable opt rx)) = mute_state st"
  using cmd wr by (simp_all add: send_command_def Let_def split: prod.split option.split)

lemma table_ok_send_command:
  "table_ok (PRIMARE_REPLY st) \<Longrightarrow>
   table_ok (PRIMARE_REPLY (state_of (send_command st variable opt rx)))"
proof -
  assume tbl: "table_ok (PRIMARE_REPLY st)"
  have r: "table_ok (fst (primare_reader rx (PRIMARE_REPLY st)))"
    using tbl by (rule table_ok_reader)
  have "\<And>k. table_ok ((fst (primare_reader rx (PRIMARE_REPLY st)))(k \<mapsto> []))"
    using r by (simp add: table_ok_upd lower_hex_Nil)
  with tbl r show ?thesis
    by (auto simp: send_command_def Let_def split: option.split sum.split prod.split)
qed

section \<open>The reply slot after a dispatch\<close>

lemma send_command_slots:
  assumes cmd: "PRIMARE_CMD variable = Some (command, data0, reply, True)"
    and wr: "write_frame command (case opt of None \<Rightarrow> data0 | Some v \<Rightarrow> replace_YY v data0) = Inr frame"
    and rx: "rx \<noteq> []"
    and slot: "reply_slot st rx (take 2 reply) = Some r"
  shows "PRIMARE_REPLY (state_of (send_command st variable opt rx)) reply = Some []"
    and "take 2 reply \<noteq> reply \<Longrightarrow>
         PRIMARE_REPLY (state_of (send_command st variable opt rx)) (take 2 reply) = Some r"
  using slot by (simp_all add: send_command_wait[OF cmd wr rx slot] reply_slot_def)

text \<open>
  Claim C5 (after a dispatch that waited, the table entry under the first two characters
  of the reply template is empty) fails for \<open>volume_set\<close>: the payload is read from slot
  \<open>03\<close>, but the entry that is emptied is the one under the whole template \<open>03YY\<close>, a
  key the reader never writes. Slot \<open>03\<close> still holds the consumed payload.
\<close>

theorem volume_set_leaves_reply_slot:
  "value_of (send_command (PrimareTalker_init None) ''volume_set'' (Some ''28'')
               [0x02, 0x03, 0x28, 0x10, 0x03]) = Some ''28'' \<and>
   PRIMARE_REPLY (state_of (send_command (PrimareTalker_init None) ''volume_set'' (Some ''28'')
               [0x02, 0x03, 0x28, 0x10, 0x03])) ''03'' = Some ''28'' \<and>
   PRIMARE_REPLY (state_of (send_command (PrimareTalker_init None) ''volume_set'' (Some ''28'')
               [0x02, 0x03, 0x28, 0x10, 0x03])) ''03YY'' = Some []"
  by code_simp

text \<open>A command whose reply template is the bare variable code does empty its slot.\<close>

lemma volume_up_clears_reply_slot:
  "value_of (send_command (PrimareTalker_init None) ''volume_up'' None
               [0x02, 0x03, 0x28, 0x10, 0x03]) = Some ''28'' \<and>
   PRIMARE_REPLY (state_of (send_command (PrimareTalker_init None) ''volume_up'' None
               [0x02, 0x03, 0x28, 0x10, 0x03])) ''03'' = Some []"
  by code_simp

section \<open>Volume\<close>

lemma target_bounds:
  assumes "0 \<le> p" "p \<le> 100"
  shows "0 \<le> target_primare_volume p \<and> target_primare_volume p \<le> 79"
proof -
  have "0 \<le> p * 79" using assms by simp
  then have "target_primare_volume p = (2 * (p * 79) + 100) div 200"
    by (simp add: target_primare_volume_def round_half_away_def VOLUME_LEVELS_def)
  with assms show ?thesis by arith
qed

lemma upper_hexdigit_zero: "upper_hexdigit 0 = CHR ''0''"
  by (simp add: upper_hexdigit_def char_of_eq_iff)

lemma hex_upper_byte:
  "n < 256 \<Longrightarrow> zero_pad2 (hex_upper n) = [upper_hexdigit (n div 16), upper_hexdigit (n mod 16)]"
proof (cases "n < 16")
  case True
  then have "hex_upper n = [upper_hexdigit n]"
    by (subst hex_upper.simps) simp
  with True show ?thesis
    by (simp add: zero_pad2_def upper_hexdigit_zero)
next
  case False
  assume "n < 256"
  then have "n div 16 < 16" by simp
  then have "hex_upper (n div 16) = [upper_hexdigit (n div 16)]"
    by (subst hex_upper.simps) simp
  with False have "hex_upper n = [upper_hexdigit (n div 16), upper_hexdigit (n mod 16)]"
    by (subst hex_upper.simps) simp
  then show ?thesis
    by (simp add: zero_pad2_def)
qed

lemma fmt_02X_byte:
  "0 \<le> t \<Longrightarrow> t < 256 \<Longrightarrow>
   fmt_02X t = [upper_hexdigit (nat t div 16), upper_hexdigit (nat t mod 16)]"
  by (simp add: fmt_02X_def hex_upper_byte)

lemma hexval_upper_hexdigit: "n < 16 \<Longrightarrow> hexval (upper_hexdigit n) = Some n"
  by (auto simp: hexval_def upper_hexdigit_def Let_def)

lemma unhexlify_fmt_02X:
  assumes "0 \<le> t" "t < 256"
  shows "unhexlify (fmt_02X t) = Inr [word_of_int t]"
proof -
  have lt: "nat t div 16 < 16" "nat t mod 16 < 16" using assms by auto
  have "(of_nat (16 * (nat t div 16) + nat t mod 16) :: byte) = of_nat (nat t)"
    by simp
  also have "\<dots> = word_of_int t" using assms(1) by simp
  finally show ?thesis
    using lt by (simp add: fmt_02X_byte[OF assms] hexval_upper_hexdigit del: of_nat_add of_nat_mult)
qed

lemma write_frame_volume_set:
  assumes "0 \<le> t" "t < 256"
  shows "write_frame ''W'' (replace_YY (fmt_02X t) ''83YY'') =
           Inr ([0x02, 0x57, 0x83] @ escape [word_of_int t] @ [0x10, 0x03])"
proof -
  have "replace_YY (fmt_02X t) ''83YY'' = ''83'' @ fmt_02X t"
    by simp
  moreover have "unhexlify (''83'' @ fmt_02X t) = Inr [0x83, word_of_int t]"
    using unhexlify_fmt_02X[OF assms] by (simp add: hexval_def)
  ultimately show ?thesis
    using write_frame_Inr[of "''83'' @ fmt_02X t" "[0x83, word_of_int t]" "''W''"]
    by (simp add: BYTE_STX_def BYTE_WRITE_def BYTE_DLE_ETX_def)
qed

lemma cmd_volume_set: "PRIMARE_CMD ''volume_set'' = Some (''W'', ''83YY'', ''03YY'', True)"
  by (simp add: PRIMARE_CMD_def)

lemma volume_set_send:
  assumes "0 \<le> percent" "percent \<le> 100" and tbl: "table_ok (PRIMARE_REPLY st)" and rx: "rx \<noteq> []"
  shows "\<exists>reply. reply_slot st rx ''03'' = Some reply \<and> lower_hex reply \<and>
           send_command st ''volume_set'' (Some (fmt_02X (target_primare_volume percent))) rx =
             Returned reply
               (st\<lparr>device_written := device_written st @
                      [[0x02, 0x57, 0x83] @ escape [word_of_int (target_primare_volume percent)] @ [0x10, 0x03]],
                    PRIMARE_REPLY := (fst (primare_reader rx (PRIMARE_REPLY st)))(''03YY'' \<mapsto> [])\<rparr>)"
proof -
  have t: "0 \<le> target_primare_volume percent" "target_primare_volume percent < 256"
    using target_bounds[OF assms(1,2)] by auto
  have "''03'' \<in> set PRIMARE_REPLY_keys"
    by (simp add: PRIMARE_REPLY_keys_def)
  then obtain reply where reply: "reply_slot st rx ''03'' = Some reply" "lower_hex reply"
    using reply_slot_lower_hex[OF tbl] by blast
  have "send_command st ''volume_set'' (Some (fmt_02X (target_primare_volume percent))) rx =
          Returned reply
            (st\<lparr>device_written := device_written st @
                   [[0x02, 0x57, 0x83] @ escape [word_of_int (target_primare_volume percent)] @ [0x10, 0x03]],
                 PRIMARE_REPLY := (fst (primare_reader rx (PRIMARE_REPLY st)))(''03YY'' \<mapsto> [])\<rparr>)"
  proof (rule send_command_wait[OF cmd_volume_set _ rx])
    show "write_frame ''W''
            (case Some (fmt_02X (target_primare_volume percent)) of
               None \<Rightarrow> ''83YY'' | Some v \<Rightarrow> replace_YY v ''83YY'') =
          Inr ([0x02, 0x57, 0x83] @ escape [word_of_int (target_primare_volume percent)] @ [0x10, 0x03])"
      using write_frame_volume_set[OF t] by simp
    show "reply_slot st rx (take 2 ''03YY'') = Some reply"
      using reply(1) by simp
  qed
  with reply show ?thesis by blast
qed

lemma volume_set_outcome:
  assumes "0 \<le> percent" "percent \<le> 100"
    and "table_ok (PRIMARE_REPLY st)" and "rx \<noteq> []"
  shows "\<exists>reply.
           reply_slot st rx ''03'' = Some reply \<and>
           (let target = target_primare_volume percent;
                accepted = (reply \<noteq> [] \<and> (int_16 reply = Inr target \<or> int_16 reply = Inr (target - 1)));
                st' = state_of (volume_set st percent rx)
            in value_of (volume_set st percent rx) = Some accepted \<and>
               volume st' = (if accepted then Some percent else volume st) \<and>
               mute_state st' = mute_state st \<and>
               device_written st' = device_written st @
                 [[0x02, 0x57, 0x83] @ escape [word_of_int target] @ [0x10, 0x03]])"
proof -
  obtain reply where slot: "reply_slot st rx ''03'' = Some reply" and hex: "lower_hex reply"
    and send: "send_command st ''volume_set'' (Some (fmt_02X (target_primare_volume percent))) rx =
             Returned reply
               (st\<lparr>device_written := device_written st @
                      [[0x02, 0x57, 0x83] @ escape [word_of_int (target_primare_volume percent)] @ [0x10, 0x03]],
                    PRIMARE_REPLY := (fst (primare_reader rx (PRIMARE_REPLY st)))(''03YY'' \<mapsto> [])\<rparr>)"
    using volume_set_send[OF assms] by blast
  have "let target = target_primare_volume percent;
            accepted = (reply \<noteq> [] \<and> (int_16 reply = Inr target \<or> int_16 reply = Inr (target - 1)));
            st' = state_of (volume_set st percent rx)
        in value_of (volume_set st percent rx) = Some accepted \<and>
           volume st' = (if accepted then Some percent else volume st) \<and>
           mute_state st' = mute_state st \<and>
           device_written st' = device_written st @
             [[0x02, 0x57, 0x83] @ escape [word_of_int target] @ [0x10, 0x03]]"
  proof (cases "reply = []")
    case True
    with send show ?thesis
      by (simp add: volume_set_def Let_def)
  next
    case False
    then obtain n where n: "int_16 reply = Inr n"
      using int_16_lower_hex[OF hex] by blast
    with False send show ?thesis
      by (simp add: volume_set_def Let_def)
  qed
  with slot show ?thesis by blast
qed

text \<open>
  Claim C3: for a percent in 0..100, \<open>volume_set\<close> computes a target level in 0..79,
  prints it as two hex digits and writes the frame STX W 83 target DLE ETX (the target
  byte doubled when it is DLE itself). When the device answers, the call returns without
  raising; it returns True and caches the percent it was given exactly when the payload
  found in slot 03 is non-empty and reads, as a hex integer, target or target - 1;
  otherwise it returns False and the cached volume is as before. The mute flag is
  untouched either way. The reply table is taken to hold reader output under the keys it
  was loaded with, which is so when the module is loaded and after every dispatch.
\<close>

theorem volume_set_spec:
  assumes "0 \<le> percent" "percent \<le> 100"
    and "table_ok (PRIMARE_REPLY st)" and "rx \<noteq> []"
  shows "0 \<le> target_primare_volume percent \<and> target_primare_volume percent \<le> 79 \<and>
         length (fmt_02X (target_primare_volume percent)) = 2 \<and>
         (\<exists>reply.
            reply_slot st rx ''03'' = Some reply \<and>
            (let target = target_primare_volume percent;
                 accepted = (reply \<noteq> [] \<and> (int_16 reply = Inr target \<or> int_16 reply = Inr (target - 1)));
                 st' = state_of (volume_set st percent rx)
             in value_of (volume_set st percent rx) = Some accepted \<and>
                volume st' = (if accepted then Some percent else volume st) \<and>
                mute_state st' = mute_state st \<and>
                device_written st' = device_written st @
                  [[0x02, 0x57, 0x83] @ escape [word_of_int target] @ [0x10, 0x03]]))"
proof -
  have t: "0 \<le> target_primare_volume percent" "target_primare_volume percent \<le> 79"
    using target_bounds[OF assms(1,2)] by auto
  then have len: "length (fmt_02X (target_primare_volume percent)) = 2"
    by (simp add: fmt_02X_byte)
  from t len volume_set_outcome[OF assms] show ?thesis by blast
qed

text \<open>
  The theorem at \<open>volume_set(50)\<close> on a fresh talker with the device answering
  \<open>02 03 28 10 03\<close>: target 40, written \<open>02 57 83 28 10 03\<close>, accepted, 50 cached.
\<close>

theorem volume_set_spec_witness:
  "(0::int) \<le> 50 \<and> (50::int) \<le> 100 \<and> table_ok (PRIMARE_REPLY (PrimareTalker_init None)) \<and>
   [0x02, 0x03, 0x28, 0x10, 0x03] \<noteq> ([] :: byte list) \<and>
   target_primare_volume 50 = 40 \<and> fmt_02X 40 = ''28'' \<and>
   reply_slot (PrimareTalker_init None) [0x02, 0x03, 0x28, 0x10, 0x03] ''03'' = Some ''28'' \<and>
   value_of (volume_set (PrimareTalker_init None) 50 [0x02, 0x03, 0x28, 0x10, 0x03]) = Some True \<and>
   volume (state_of (volume_set (PrimareTalker_init None) 50 [0x02, 0x03, 0x28, 0x10, 0x03])) = Some 50 \<and>
   device_written (state_of (volume_set (PrimareTalker_init None) 50 [0x02, 0x03, 0x28, 0x10, 0x03])) =
     [[0x02, 0x57, 0x83, 0x28, 0x10, 0x03]]"
proof -
  have tbl: "table_ok (PRIMARE_REPLY (PrimareTalker_init None))"
    by (simp add: PrimareTalker_init_def table_ok_init)
  have rx: "[0x02, 0x03, 0x28, 0x10, 0x03] \<noteq> ([] :: byte list)"
    by simp
  have slot: "reply_slot (PrimareTalker_init None) [0x02, 0x03, 0x28, 0x10, 0x03] ''03'' = Some ''28''"
    by code_simp
  have t: "target_primare_volume 50 = 40"
    by (simp add: target_primare_volume_def round_half_away_def VOLUME_LEVELS_def)
  have f: "fmt_02X 40 = ''28''"
    by code_simp
  have i: "int_16 ''28'' = Inr 40"
    by (simp add: int_16_def hexval_def)
  have w: "device_written (PrimareTalker_init None) = []" "volume (PrimareTalker_init None) = None"
    by (simp_all add: PrimareTalker_init_def)
  from volume_set_spec [of 50 "PrimareTalker_init None" "[0x02, 0x03, 0x28, 0x10, 0x03]", OF _ _ tbl rx]
  show ?thesis
    using tbl slot t f i w by (simp add: Let_def)
qed

text \<open>The other two replies of the scenario: 27 is accepted too, 26 is not.\<close>

lemma volume_set_50_reply_27:
  "value_of (volume_set (PrimareTalker_init None) 50 [0x02, 0x03, 0x27, 0x10, 0x03]) = Some True \<and>
   volume (state_of (volume_set (PrimareTalker_init None) 50 [0x02, 0x03, 0x27, 0x10, 0x03])) = Some 50"
  by code_simp

lemma volume_set_50_reply_26:
  "value_of (volume_set (PrimareTalker_init (Some 30)) 50 [0x02, 0x03, 0x26, 0x10, 0x03]) = Some False \<and>
   volume (state_of (volume_set (PrimareTalker_init (Some 30)) 50 [0x02, 0x03, 0x26, 0x10, 0x03])) = Some 30"
  by code_simp

lemma volume_set_blocks_without_answer:
  assumes "0 \<le> percent" "percent \<le> 100"
  shows "value_of (volume_set st percent []) = None \<and> raised_of (volume_set st percent []) = None"
proof -
  have t: "0 \<le> target_primare_volume percent" "target_primare_volume percent < 256"
    using target_bounds[OF assms] by auto
  have "write_frame ''W''
          (case Some (fmt_02X (target_primare_volume percent)) of
             None \<Rightarrow> ''83YY'' | Some v \<Rightarrow> replace_YY v ''83YY'') =
        Inr ([0x02, 0x57, 0x83] @ escape [word_of_int (target_primare_volume percent)] @ [0x10, 0x03])"
    using write_frame_volume_set[OF t] by simp
  from send_command_blocks[OF cmd_volume_set this] show ?thesis
    by (simp add: volume_set_def Let_def)
qed

section \<open>Calibration and the relative volume steps\<close>

text \<open>
  Claim C4 (calibration converts the level it reads to percent, so that a final reply of
  hex 32 makes \<open>volume_get\<close> report 63) fails: the level is cached as it is read, and
  \<open>volume_get\<close> reports 50. With the device at its highest level, hex 4F, \<open>volume_get\<close>
  reports 79, not the 100 its docstring gives for maximum volume. The two relative
  commands are written in the order volume_down, volume_up.
\<close>

theorem calibration_caches_raw_level:
  "volume (PrimareTalker_init None) = None \<and>
   device_written (state_of (set_device_to_known_state_volume (PrimareTalker_init None)
       [0x02, 0x03, 0x31, 0x10, 0x03] [0x02, 0x03, 0x32, 0x10, 0x03])) =
     [[0x02, 0x57, 0x03, 0xFF, 0x10, 0x03], [0x02, 0x57, 0x03, 0x01, 0x10, 0x03]] \<and>
   volume_get (state_of (set_device_to_known_state_volume (PrimareTalker_init None)
       [0x02, 0x03, 0x31, 0x10, 0x03] [0x02, 0x03, 0x32, 0x10, 0x03])) = Some 50 \<and>
   round_half_away (50 * 100) 79 = 63 \<and>
   volume_get (state_of (set_device_to_known_state_volume (PrimareTalker_init None)
       [0x02, 0x03, 0x4E, 0x10, 0x03] [0x02, 0x03, 0x4F, 0x10, 0x03])) = Some 79"
  by code_simp

text \<open>An empty reply to either step leaves 0 in the cache.\<close>

lemma calibration_defaults_to_zero:
  "volume_get (state_of (set_device_to_known_state_volume (PrimareTalker_init None)
       [0x02, 0x09, 0x00, 0x10, 0x03] [0x02, 0x03, 0x32, 0x10, 0x03])) = Some 0 \<and>
   volume_get (state_of (set_device_to_known_state_volume (PrimareTalker_init None)
       [0x02, 0x03, 0x31, 0x10, 0x03] [0x02, 0x09, 0x00, 0x10, 0x03])) = Some 0"
  by code_simp

lemma volume_up_never_returns: "value_of (volume_up st rx) = None"
  by (cases "send_command st ''volume_up'' None rx")
     (simp_all add: volume_up_def split: option.split)

lemma volume_down_never_returns: "value_of (volume_down st rx) = None"
  by (cases "send_command st ''volume_down'' None rx")
     (simp_all add: volume_down_def split: option.split)

text \<open>
  Claim C7 (\<open>volume_up\<close> and \<open>volume_down\<close> step the cached level by one and return
  the new volume as a percent clamped to 0..100) fails on every call: the relative
  command is written, and with 50 cached and the device answering, the cached number is
  stepped by one, but the call then raises AttributeError instead of returning.
\<close>

theorem volume_up_down_raise:
  "volume (PrimareTalker_init (Some 50)) = Some 50 \<and>
   device_written (state_of (volume_up (PrimareTalker_init (Some 50)) [0x02, 0x03, 0x29, 0x10, 0x03])) =
     [[0x02, 0x57, 0x03, 0x01, 0x10, 0x03]] \<and>
   volume (state_of (volume_up (PrimareTalker_init (Some 50)) [0x02, 0x03, 0x29, 0x10, 0x03])) = Some 51 \<and>
   value_of (volume_up (PrimareTalker_init (Some 50)) [0x02, 0x03, 0x29, 0x10, 0x03]) = None \<and>
   raised_of (volume_up (PrimareTalker_init (Some 50)) [0x02, 0x03, 0x29, 0x10, 0x03]) = Some AttributeError \<and>
   device_written (state_of (volume_down (PrimareTalker_init (Some 50)) [0x02, 0x03, 0x27, 0x10, 0x03])) =
     [[0x02, 0x57, 0x03, 0xFF, 0x10, 0x03]] \<and>
   volume (state_of (volume_down (PrimareTalker_init (Some 50)) [0x02, 0x03, 0x27, 0x10, 0x03])) = Some 49 \<and>
   value_of (volume_down (PrimareTalker_init (Some 50)) [0x02, 0x03, 0x27, 0x10, 0x03]) = None \<and>
   raised_of (volume_down (PrimareTalker_init (Some 50)) [0x02, 0x03, 0x27, 0x10, 0x03]) = Some AttributeError"
  by code_simp

section \<open>Mute\<close>

text \<open>
  Claim C8 (\<open>mute_set(b)\<close> reports success exactly when the reply on variable 09 equals
  the encoded boolean, and \<open>mute_get\<close> returns \<open>b\<close> after a success) fails for
  \<open>b = False\<close>: the reply is compared with \<open>01\<close> whatever was asked. An unmute that the
  device confirms with \<open>00\<close> is reported as a failure, and an unmute answered with \<open>01\<close>
  is reported as a success after which \<open>mute_get\<close> returns True. The frames written are
  as claimed.
\<close>

theorem mute_set_false_reports_failure:
  "device_written (state_of (mute_set (PrimareTalker_init None) True [0x02, 0x09, 0x01, 0x10, 0x03])) =
     [[0x02, 0x57, 0x89, 0x01, 0x10, 0x03]] \<and>
   device_written (state_of (mute_set (PrimareTalker_init None) False [0x02, 0x09, 0x00, 0x10, 0x03])) =
     [[0x02, 0x57, 0x89, 0x00, 0x10, 0x03]] \<and>
   reply_slot (PrimareTalker_init None) [0x02, 0x09, 0x00, 0x10, 0x03] ''09'' = Some ''00'' \<and>
   value_of (mute_set (PrimareTalker_init None) False [0x02, 0x09, 0x00, 0x10, 0x03]) = Some False \<and>
   value_of (mute_set (PrimareTalker_init None) False [0x02, 0x09, 0x01, 0x10, 0x03]) = Some True \<and>
   mute_get (state_of (mute_set (PrimareTalker_init None) False [0x02, 0x09, 0x01, 0x10, 0x03])) = True"
  by code_simp

text \<open>The scenario of the claim, \<open>mute_set(true)\<close> answered with \<open>01\<close>, does hold.\<close>

lemma mute_set_true_scenario:
  "value_of (mute_set (PrimareTalker_init None) True [0x02, 0x09, 0x01, 0x10, 0x03]) = Some True \<and>
   mute_get (state_of (mute_set (PrimareTalker_init None) True [0x02, 0x09, 0x01, 0x10, 0x03])) = True"
  by code_simp

section \<open>Replies that do not match\<close>

lemma cmd_mute_set: "PRIMARE_CMD ''mute_set'' = Some (''W'', ''89YY'', ''09YY'', True)"
  by (simp add: PRIMARE_CMD_def)

lemma cmd_input_set: "PRIMARE_CMD ''input_set'' = Some (''W'', ''82YY'', ''02YY'', True)"
  by (simp add: PRIMARE_CMD_def)

lemma write_frame_mute_set:
  "write_frame ''W'' (replace_YY (if mute then ''01'' else ''00'') ''89YY'') =
     Inr [0x02, 0x57, 0x89, if mute then 0x01 else 0x00, 0x10, 0x03]"
  by (simp add: write_frame_def hexval_def BYTE_STX_def BYTE_WRITE_def BYTE_DLE_ETX_def)

lemma write_frame_input_set:
  assumes "0 \<le> t" "t < 256"
  shows "write_frame ''W'' (replace_YY (fmt_02X t) ''82YY'') =
           Inr ([0x02, 0x57, 0x82] @ escape [word_of_int t] @ [0x10, 0x03])"
proof -
  have "replace_YY (fmt_02X t) ''82YY'' = ''82'' @ fmt_02X t"
    by simp
  moreover have "unhexlify (''82'' @ fmt_02X t) = Inr [0x82, word_of_int t]"
    using unhexlify_fmt_02X[OF assms] by (simp add: hexval_def)
  ultimately show ?thesis
    using write_frame_Inr[of "''82'' @ fmt_02X t" "[0x82, word_of_int t]" "''W''"]
    by (simp add: BYTE_STX_def BYTE_WRITE_def BYTE_DLE_ETX_def)
qed

lemma mute_set_outcome:
  assumes tbl: "table_ok (PRIMARE_REPLY st)" and rx: "rx \<noteq> []"
  shows "\<exists>reply. reply_slot st rx ''09'' = Some reply \<and>
           value_of (mute_set st mute rx) = Some (reply = ''01'') \<and>
           mute_state (state_of (mute_set st mute rx)) = (reply = ''01'') \<and>
           volume (state_of (mute_set st mute rx)) = volume st \<and>
           device_written (state_of (mute_set st mute rx)) =
             device_written st @ [[0x02, 0x57, 0x89, if mute then 0x01 else 0x00, 0x10, 0x03]]"
proof -
  have wr: "write_frame ''W''
      (case Some (if mute then ''01'' else ''00'') of None \<Rightarrow> ''89YY'' | Some v \<Rightarrow> replace_YY v ''89YY'') =
      Inr [0x02, 0x57, 0x89, if mute then 0x01 else 0x00, 0x10, 0x03]"
    using write_frame_mute_set[of mute] by simp
  have key: "take 2 ''09YY'' \<in> set PRIMARE_REPLY_keys"
    by (simp add: PRIMARE_REPLY_keys_def)
  obtain r where r: "reply_slot st rx (take 2 ''09YY'') = Some r"
    and send: "send_command st ''mute_set'' (Some (if mute then ''01'' else ''00'')) rx =
      Returned r (st\<lparr>device_written := device_written st @
                      [[0x02, 0x57, 0x89, if mute then 0x01 else 0x00, 0x10, 0x03]],
                    PRIMARE_REPLY := (fst (primare_reader rx (PRIMARE_REPLY st)))(''09YY'' \<mapsto> [])\<rparr>)"
    using send_command_returns[OF cmd_mute_set wr rx tbl key] by blast
  from r have "reply_slot st rx ''09'' = Some r" by simp
  moreover from send have
    "value_of (mute_set st mute rx) = Some (r = ''01'')"
    "mute_state (state_of (mute_set st mute rx)) = (r = ''01'')"
    "volume (state_of (mute_set st mute rx)) = volume st"
    "device_written (state_of (mute_set st mute rx)) =
       device_written st @ [[0x02, 0x57, 0x89, if mute then 0x01 else 0x00, 0x10, 0x03]]"
    by (simp_all add: mute_set_def Let_def)
  ultimately show ?thesis by blast
qed

lemma input_set_empty_reply:
  assumes tbl: "table_ok (PRIMARE_REPLY st)" and rx: "rx \<noteq> []"
    and src: "0 \<le> input_source" "input_source < 256"
  shows "\<exists>reply. reply_slot st rx ''02'' = Some reply \<and>
           (reply = [] \<longrightarrow>
              value_of (input_set st input_source rx rx') = Some [] \<and>
              volume (state_of (input_set st input_source rx rx')) = volume st \<and>
              mute_state (state_of (input_set st input_source rx rx')) = mute_state st)"
proof -
  have wr: "write_frame ''W''
      (case Some (fmt_02X input_source) of None \<Rightarrow> ''82YY'' | Some v \<Rightarrow> replace_YY v ''82YY'') =
      Inr ([0x02, 0x57, 0x82] @ escape [word_of_int input_source] @ [0x10, 0x03])"
    using write_frame_input_set[OF src] by simp
  have key: "take 2 ''02YY'' \<in> set PRIMARE_REPLY_keys"
    by (simp add: PRIMARE_REPLY_keys_def)
  obtain r where r: "reply_slot st rx (take 2 ''02YY'') = Some r"
    and send: "send_command st ''input_set'' (Some (fmt_02X input_source)) rx =
      Returned r (st\<lparr>device_written := device_written st @
                      [[0x02, 0x57, 0x82] @ escape [word_of_int input_source] @ [0x10, 0x03]],
                    PRIMARE_REPLY := (fst (primare_reader rx (PRIMARE_REPLY st)))(''02YY'' \<mapsto> [])\<rparr>)"
    using send_command_returns[OF cmd_input_set wr rx tbl key] by blast
  from r have "reply_slot st rx ''02'' = Some r" by simp
  moreover from send have
    "r = [] \<longrightarrow>
       value_of (input_set st input_source rx rx') = Some [] \<and>
       volume (state_of (input_set st input_source rx rx')) = volume st \<and>
       mute_state (state_of (input_set st input_source rx rx')) = mute_state st"
    by (simp add: input_set_def)
  ultimately show ?thesis by blast
qed

text \<open>
  Claim C6 (on a reply that does not match, the operation reports failure without raising
  and the cached volume and mute fields stay as they were) fails for \<open>mute_set\<close>. After
  a \<open>mute_set(True)\<close> that the device confirms with \<open>01\<close> the cached flag is True; a
  second \<open>mute_set(True)\<close> answered \<open>00\<close> returns False and leaves False in the cache.
  And a \<open>mute_set(False)\<close> answered \<open>01\<close>, which does not match either, returns True.
  Neither call raises, and the cached volume is untouched.
\<close>

theorem mute_set_mismatch_overwrites_cache:
  "mute_get (state_of (mute_set (PrimareTalker_init (Some 30)) True
               [0x02, 0x09, 0x01, 0x10, 0x03])) = True \<and>
   reply_slot (state_of (mute_set (PrimareTalker_init (Some 30)) True
               [0x02, 0x09, 0x01, 0x10, 0x03])) [0x02, 0x09, 0x00, 0x10, 0x03] ''09'' = Some ''00'' \<and>
   value_of (mute_set (state_of (mute_set (PrimareTalker_init (Some 30)) True
               [0x02, 0x09, 0x01, 0x10, 0x03])) True [0x02, 0x09, 0x00, 0x10, 0x03]) = Some False \<and>
   mute_get (state_of (mute_set (state_of (mute_set (PrimareTalker_init (Some 30)) True
               [0x02, 0x09, 0x01, 0x10, 0x03])) True [0x02, 0x09, 0x00, 0x10, 0x03])) = False \<and>
   volume_get (state_of (mute_set (state_of (mute_set (PrimareTalker_init (Some 30)) True
               [0x02, 0x09, 0x01, 0x10, 0x03])) True [0x02, 0x09, 0x00, 0x10, 0x03])) = Some 30 \<and>
   reply_slot (PrimareTalker_init (Some 30)) [0x02, 0x09, 0x01, 0x10, 0x03] ''09'' = Some ''01'' \<and>
   value_of (mute_set (PrimareTalker_init (Some 30)) False [0x02, 0x09, 0x01, 0x10, 0x03]) = Some True"
  by code_simp

text \<open>
  For every state and every answer, the flag \<open>mute_set\<close> leaves in the cache and the value
  it returns are both "the payload in slot 09 is \<open>01\<close>", whatever was asked.
\<close>

lemma mute_set_follows_reply:
  assumes "table_ok (PRIMARE_REPLY st)" and "rx \<noteq> []"
  shows "\<exists>reply. reply_slot st rx ''09'' = Some reply \<and>
           value_of (mute_set st mute rx) = Some (reply = ''01'') \<and>
           mute_state (state_of (mute_set st mute rx)) = (reply = ''01'') \<and>
           volume (state_of (mute_set st mute rx)) = volume st"
  using mute_set_outcome[OF assms, of mute] by blast

text \<open>
  \<open>volume_set\<close> is the sibling that behaves as the claim says: a reply that is neither
  target nor target - 1 gives False, and the cached volume and mute flag stay.
\<close>

lemma volume_set_mismatch:
  assumes "0 \<le> percent" "percent \<le> 100"
    and "table_ok (PRIMARE_REPLY st)" and "rx \<noteq> []"
  shows "\<exists>reply. reply_slot st rx ''03'' = Some reply \<and>
           (\<not> (reply \<noteq> [] \<and>
               (int_16 reply = Inr (target_primare_volume percent) \<or>
                int_16 reply = Inr (target_primare_volume percent - 1))) \<longrightarrow>
            value_of (volume_set st percent rx) = Some False \<and>
            volume (state_of (volume_set st percent rx)) = volume st \<and>
            mute_state (state_of (volume_set st percent rx)) = mute_state st)"
proof -
  obtain reply where slot: "reply_slot st rx ''03'' = Some reply"
    and out: "let target = target_primare_volume percent;
                accepted = (reply \<noteq> [] \<and> (int_16 reply = Inr target \<or> int_16 reply = Inr (target - 1)));
                st' = state_of (volume_set st percent rx)
            in value_of (volume_set st percent rx) = Some accepted \<and>
               volume st' = (if accepted then Some percent else volume st) \<and>
               mute_state st' = mute_state st \<and>
               device_written st' = device_written st @
                 [[0x02, 0x57, 0x83] @ escape [word_of_int target] @ [0x10, 0x03]]"
    using volume_set_outcome[OF assms] by blast
  from out have
    "\<not> (reply \<noteq> [] \<and>
        (int_16 reply = Inr (target_primare_volume percent) \<or>
         int_16 reply = Inr (target_primare_volume percent - 1))) \<longrightarrow>
     value_of (volume_set st percent rx) = Some False \<and>
     volume (state_of (volume_set st percent rx)) = volume st \<and>
     mute_state (state_of (volume_set st percent rx)) = mute_state st"
    by (simp add: Let_def)
  with slot show ?thesis by blast
qed

text \<open>
  \<open>input_set\<close> takes any non-empty payload for success: asked for input 3 and answered
  \<open>05\<close>, it goes on to read the current input's name and returns it. Only an empty
  payload gives the empty string.
\<close>

lemma input_set_other_input:
  "reply_slot (PrimareTalker_init (Some 30)) [0x02, 0x02, 0x05, 0x10, 0x03] ''02'' = Some ''05'' \<and>
   value_of (input_set (PrimareTalker_init (Some 30)) 3 [0x02, 0x02, 0x05, 0x10, 0x03]
               [0x02, 0x14, 0x43, 0x44, 0x10, 0x03]) = Some [0x43, 0x44] \<and>
   value_of (input_set (PrimareTalker_init (Some 30)) 3 [0x02, 0x09, 0x00, 0x10, 0x03] []) = Some []"
  by code_simp

section \<open>Input names\<close>

lemma cmd_inputname_specific_get:
  "PRIMARE_CMD ''inputname_specific_get'' = Some (''R'', ''94YY'', ''94YY'', True)"
  by (simp add: PRIMARE_CMD_def)

lemma fmt_02d_digit:
  assumes "0 \<le> i" "i \<le> 7"
  shows "fmt_02d i = [CHR ''0'', char_of (48 + nat i)]"
proof -
  have "nat i < 10" using assms by simp
  then have "decimal (nat i) = [char_of (48 + nat i)]"
    by (subst decimal.simps) simp
  with assms(1) show ?thesis
    by (simp add: fmt_02d_def zero_pad2_def)
qed

lemma byte_of_index:
  assumes "0 \<le> i" "i \<le> 7"
  shows "(word_of_int i :: byte) \<noteq> 0x10" and "(of_nat (nat i) :: byte) = word_of_int i"
proof -
  have "uint (word_of_int i :: byte) = i"
    using assms by (simp add: uint_word_of_int take_bit_eq_mod)
  moreover have "uint (0x10 :: byte) = 16" by simp
  ultimately show "(word_of_int i :: byte) \<noteq> 0x10"
    using assms by auto
  show "(of_nat (nat i) :: byte) = word_of_int i"
    using assms(1) by simp
qed

lemma write_frame_inputname_specific_get:
  assumes "0 \<le> i" "i \<le> 7"
  shows "write_frame ''R'' (replace_YY (fmt_02d i) ''94YY'') =
           Inr [0x02, 0x52, 0x94, word_of_int i, 0x10, 0x03]"
proof -
  have lt: "nat i < 10" using assms by simp
  have "replace_YY (fmt_02d i) ''94YY'' = ''94'' @ fmt_02d i"
    by simp
  moreover have "hexval (char_of (48 + nat i)) = Some (nat i)"
    using lt by (simp add: hexval_def)
  then have "unhexlify (''94'' @ fmt_02d i) = Inr [0x94, word_of_int i]"
    using byte_of_index(2)[OF assms] by (simp add: fmt_02d_digit[OF assms] hexval_def)
  ultimately show ?thesis
    using write_frame_Inr[of "''94'' @ fmt_02d i" "[0x94, word_of_int i]" "''R''"]
      byte_of_index(1)[OF assms]
    by (simp add: BYTE_STX_def BYTE_READ_def BYTE_DLE_ETX_def)
qed

lemma inputname_specific_get_state:
  "device_written (state_of (inputname_specific_get st i rx)) =
     (if 0 \<le> i \<and> i \<le> 7
      then device_written (state_of (send_command st ''inputname_specific_get'' (Some (fmt_02d i)) rx))
      else device_written st)"
  "volume (state_of (inputname_specific_get st i rx)) =
     (if 0 \<le> i \<and> i \<le> 7
      then volume (state_of (send_command st ''inputname_specific_get'' (Some (fmt_02d i)) rx))
      else volume st)"
  "mute_state (state_of (inputname_specific_get st i rx)) =
     (if 0 \<le> i \<and> i \<le> 7
      then mute_state (state_of (send_command st ''inputname_specific_get'' (Some (fmt_02d i)) rx))
      else mute_state st)"
  by (simp_all add: inputname_specific_get_def split: outcome.split sum.split)

text \<open>
  Claim C10: outside 0..7 \<open>inputname_specific_get\<close> returns None and leaves the whole
  state, the list of written frames included, as it was. For an index in 0..7 the index
  is printed as two decimal digits and the frame STX R 94 index DLE ETX is written,
  whatever the device then does; the cached volume and mute flag are untouched. When the
  device answers on variable 94, the call returns the bytes of the hex payload the reader
  stored.
\<close>

theorem inputname_specific_get_spec:
  "(input < 0 \<or> 7 < input \<longrightarrow> inputname_specific_get st input rx = Returned None st) \<and>
   (0 \<le> input \<and> input \<le> 7 \<longrightarrow>
      fmt_02d input = [CHR ''0'', char_of (48 + nat input)] \<and>
      device_written (state_of (inputname_specific_get st input rx)) =
        device_written st @ [[0x02, 0x52, 0x94, word_of_int input, 0x10, 0x03]] \<and>
      volume (state_of (inputname_specific_get st input rx)) = volume st \<and>
      mute_state (state_of (inputname_specific_get st input rx)) = mute_state st \<and>
      (rx \<noteq> [] \<and> fst (decode (readline [] rx)) = ''94'' \<longrightarrow>
         (\<exists>name. unhexlify (snd (decode (readline [] rx))) = Inr name \<and>
                 value_of (inputname_specific_get st input rx) = Some (Some name))))"
proof (intro conjI impI)
  assume "input < 0 \<or> 7 < input"
  then show "inputname_specific_get st input rx = Returned None st"
    by (auto simp: inputname_specific_get_def)
next
  assume r: "0 \<le> input \<and> input \<le> 7"
  then show "fmt_02d input = [CHR ''0'', char_of (48 + nat input)]"
    by (simp add: fmt_02d_digit)
next
  assume r: "0 \<le> input \<and> input \<le> 7"
  then have wr: "write_frame ''R''
      (case Some (fmt_02d input) of None \<Rightarrow> ''94YY'' | Some v \<Rightarrow> replace_YY v ''94YY'') =
      Inr [0x02, 0x52, 0x94, word_of_int input, 0x10, 0x03]"
    using write_frame_inputname_specific_get[of input] by simp
  from r show "device_written (state_of (inputname_specific_get st input rx)) =
        device_written st @ [[0x02, 0x52, 0x94, word_of_int input, 0x10, 0x03]]"
    by (simp add: inputname_specific_get_state
        send_command_effect(1)[OF cmd_inputname_specific_get wr])
  from r show "volume (state_of (inputname_specific_get st input rx)) = volume st"
    by (simp add: inputname_specific_get_state
        send_command_effect(2)[OF cmd_inputname_specific_get wr])
  from r show "mute_state (state_of (inputname_specific_get st input rx)) = mute_state st"
    by (simp add: inputname_specific_get_state
        send_command_effect(3)[OF cmd_inputname_specific_get wr])
  assume a: "rx \<noteq> [] \<and> fst (decode (readline [] rx)) = ''94''"
  then have slot: "reply_slot st rx (take 2 ''94YY'') = Some (snd (decode (readline [] rx)))"
    using reply_slot_decoded[of rx "''94''" st] by simp
  obtain name where name: "unhexlify (snd (decode (readline [] rx))) = Inr name"
    using unhexlify_lower_hex[OF lower_hex_decode] by blast
  from a have rx: "rx \<noteq> []" by simp
  have "value_of (inputname_specific_get st input rx) = Some (Some name)"
    using r name
    by (simp add: inputname_specific_get_def
        send_command_wait[OF cmd_inputname_specific_get wr rx slot])
  with name show "\<exists>name. unhexlify (snd (decode (readline [] rx))) = Inr name \<and>
                 value_of (inputname_specific_get st input rx) = Some (Some name)"
    by blast
qed

text \<open>
  The theorem at index 3 with the device answering \<open>02 94 43 44 10 03\<close> (the name CD),
  and at index 8, which is out of range.
\<close>

theorem inputname_specific_get_spec_witness:
  "(0::int) \<le> 3 \<and> (3::int) \<le> 7 \<and> (7::int) < 8 \<and>
   [0x02, 0x94, 0x43, 0x44, 0x10, 0x03] \<noteq> ([] :: byte list) \<and>
   fst (decode (readline [] [0x02, 0x94, 0x43, 0x44, 0x10, 0x03])) = ''94'' \<and>
   fmt_02d 3 = ''03'' \<and>
   device_written (state_of (inputname_specific_get (PrimareTalker_init None) 3
       [0x02, 0x94, 0x43, 0x44, 0x10, 0x03])) = [[0x02, 0x52, 0x94, 0x03, 0x10, 0x03]] \<and>
   value_of (inputname_specific_get (PrimareTalker_init None) 3 [0x02, 0x94, 0x43, 0x44, 0x10, 0x03]) =
     Some (Some [0x43, 0x44]) \<and>
   inputname_specific_get (PrimareTalker_init None) 8 [0x02, 0x94, 0x43, 0x44, 0x10, 0x03] =
     Returned None (PrimareTalker_init None)"
proof -
  have d: "decode (readline [] [0x02, 0x94, 0x43, 0x44, 0x10, 0x03]) = (''94'', ''4344'')"
    by code_simp
  have u: "unhexlify ''4344'' = Inr [0x43, 0x44]"
    by (simp add: hexval_def)
  have w: "device_written (PrimareTalker_init None) = []"
    by (simp add: PrimareTalker_init_def)
  have c: "char_of (51 :: nat) = CHR ''3''"
    by (simp add: char_of_eq_iff)
  from inputname_specific_get_spec [of 3 "PrimareTalker_init None" "[0x02, 0x94, 0x43, 0x44, 0x10, 0x03]"]
    inputname_specific_get_spec [of 8 "PrimareTalker_init None" "[0x02, 0x94, 0x43, 0x44, 0x10, 0x03]"]
  show ?thesis
    using d u w c by simp
qed

text \<open>
  On the table as loaded, an answer on another variable does not create slot 94, and the
  dispatcher's lookup raises KeyError.
\<close>

lemma inputname_specific_get_other_variable:
  "raised_of (inputname_specific_get (PrimareTalker_init None) 3 [0x02, 0x14, 0x43, 0x44, 0x10, 0x03]) =
     Some KeyError"
  by code_simp

end
